theory Spec2Isabelle
  imports Main "HOL-Library.Word"
begin

unbundle bit_operations_syntax

section \<open>The LightningDetector sketch\<close>

text \<open>
  The sketch \<^verbatim>\<open>LightningDetector.ino\<close> drives an AS3935 lightning sensor through the
  AS3935 library. Everything the sketch does to the outside world is a call: a write of
  its flag variable, a call into the library, or a call on the serial console. The model
  records these calls, in program order, in a list.
\<close>

datatype action =
    WriteFlag int            \<comment> \<open>\<^verbatim>\<open>AS3935IrqTriggered = v\<close>\<close>
  | InterruptSource          \<comment> \<open>\<^verbatim>\<open>AS3935.interruptSource()\<close>: reads the interrupt-source register\<close>
  | LightningDistanceKm      \<comment> \<open>\<^verbatim>\<open>AS3935.lightningDistanceKm()\<close>: reads the distance register\<close>
  | SerialPrint string       \<comment> \<open>\<^verbatim>\<open>Serial.print(s)\<close>\<close>
  | SerialPrintDec int       \<comment> \<open>\<^verbatim>\<open>Serial.print(v,DEC)\<close>\<close>
  | SerialPrintln string     \<comment> \<open>\<^verbatim>\<open>Serial.println(s)\<close>\<close>

text \<open>
  The library's two read functions are declared in \<^verbatim>\<open>AS3935.h\<close>; the sketch stores
  their results in \<^verbatim>\<open>int\<close> variables. The values they return during one pass of
  \<^verbatim>\<open>loop\<close> are parameters of the model.
\<close>

record sensor =
  interruptSource :: int
  lightningDistanceKm :: int

text \<open>
  The state of the sketch: the global \<^verbatim>\<open>volatile int AS3935IrqTriggered\<close>, and the calls
  made so far.
\<close>

record sketch =
  AS3935IrqTriggered :: int
  trace :: "action list"

text \<open>
  \<^verbatim>\<open>void loop()\<close>. The integers are only compared and bit-tested, never computed with,
  so \<^typ>\<open>int\<close> stands for the 32-bit \<^verbatim>\<open>int\<close> of the target. The three tests of
  \<^verbatim>\<open>irqSource\<close> are three separate \<^verbatim>\<open>if\<close> statements, as are the three tests of
  \<^verbatim>\<open>strokeDistance\<close>.
\<close>

definition loop :: "sensor \<Rightarrow> sketch \<Rightarrow> sketch" where
  "loop dev s =
     (if AS3935IrqTriggered s \<noteq> 0 then
        let irqSource = interruptSource dev in
        s\<lparr>AS3935IrqTriggered := 0,
          trace := trace s
            @ [WriteFlag 0]
            @ [InterruptSource]
            @ (if irqSource AND 1 \<noteq> 0
               then [SerialPrintln ''Noise level too high, try adjusting noise floor'']
               else [])
            @ (if irqSource AND 4 \<noteq> 0
               then [SerialPrintln ''Disturber detected'']
               else [])
            @ (if irqSource AND 8 \<noteq> 0
               then
                 let strokeDistance = lightningDistanceKm dev in
                 [LightningDistanceKm]
                 @ (if strokeDistance = 1
                    then [SerialPrintln ''Storm overhead, watch out!'']
                    else [])
                 @ (if strokeDistance = 63
                    then [SerialPrintln ''Out of range lightning detected.'']
                    else [])
                 @ (if strokeDistance < 63 \<and> strokeDistance > 1
                    then [SerialPrint ''Lightning detected '',
                          SerialPrintDec strokeDistance,
                          SerialPrintln '' kilometers away.'']
                    else [])
               else [])\<rparr>
      else s)"

text \<open>\<^verbatim>\<open>void AS3935Irq()\<close>, the handler attached to the rising edge of the IRQ pin.\<close>

definition AS3935Irq :: "sketch \<Rightarrow> sketch" where
  "AS3935Irq s = s\<lparr>AS3935IrqTriggered := 1, trace := trace s @ [WriteFlag 1]\<rparr>"

subsection \<open>Observing one pass\<close>

text \<open>The calls that one run of a function adds to the trace.\<close>

definition pass_steps :: "sensor \<Rightarrow> sketch \<Rightarrow> action list" where
  "pass_steps dev s = drop (length (trace s)) (trace (loop dev s))"

definition handler_steps :: "sketch \<Rightarrow> action list" where
  "handler_steps s = drop (length (trace s)) (trace (AS3935Irq s))"

fun is_serial :: "action \<Rightarrow> bool" where
  "is_serial (SerialPrint _) = True"
| "is_serial (SerialPrintDec _) = True"
| "is_serial (SerialPrintln _) = True"
| "is_serial _ = False"

fun is_flag_write :: "action \<Rightarrow> bool" where
  "is_flag_write (WriteFlag _) = True"
| "is_flag_write _ = False"

text \<open>The calls into the AS3935 library, each of which is a register transaction on the bus.\<close>

fun is_transport :: "action \<Rightarrow> bool" where
  "is_transport InterruptSource = True"
| "is_transport LightningDistanceKm = True"
| "is_transport _ = False"

text \<open>
  Every message of the sketch is closed by exactly one \<^verbatim>\<open>println\<close>, so the number of
  messages in a list of calls is the number of its \<^verbatim>\<open>println\<close> calls.
\<close>

fun is_println :: "action \<Rightarrow> bool" where
  "is_println (SerialPrintln _) = True"
| "is_println _ = False"

definition messages :: "action list \<Rightarrow> nat" where
  "messages steps = length (filter is_println steps)"

text \<open>The calls that come before the read of the interrupt-source register.\<close>

definition before_source_read :: "action list \<Rightarrow> action list" where
  "before_source_read steps = takeWhile (\<lambda>a. a \<noteq> InterruptSource) steps"

text \<open>The calls that come after the read of the distance register.\<close>

definition after_distance_read :: "action list \<Rightarrow> action list" where
  "after_distance_read steps = tl (dropWhile (\<lambda>a. a \<noteq> LightningDistanceKm) steps)"

subsection \<open>Events\<close>

text \<open>
  The specification names the outcomes of a pass: a noise floor that is too high, a
  disturber, and a lightning strike with its distance in kilometres (1 to 63). The sketch
  surfaces an event as a message on the serial console; \<open>message\<close> gives, for each
  event, the serial calls of the sketch that announce it (lines 104, 106 and 113 to 122).
  The three messages of a lightning strike keep the guards of the sketch, so a distance
  below 1 or above 63, which is no distance of the specification, has no message.
\<close>

datatype event = NoiseFloorTooHigh | DisturberDetected | Lightning int

fun message :: "event \<Rightarrow> action list" where
  "message NoiseFloorTooHigh =
     [SerialPrintln ''Noise level too high, try adjusting noise floor'']"
| "message DisturberDetected = [SerialPrintln ''Disturber detected'']"
| "message (Lightning d) =
     (if d = 1 then [SerialPrintln ''Storm overhead, watch out!''] else [])
     @ (if d = 63 then [SerialPrintln ''Out of range lightning detected.''] else [])
     @ (if d < 63 \<and> d > 1
        then [SerialPrint ''Lightning detected '', SerialPrintDec d,
              SerialPrintln '' kilometers away.'']
        else [])"

text \<open>
  Lines 72 and 73 of \<^verbatim>\<open>setup()\<close>: the sketch tests the result of
  \<^verbatim>\<open>AS3935.calibrate()\<close> and prints a warning when it is false. The result of the
  library call is the parameter.
\<close>

definition setup_calibrate :: "bool \<Rightarrow> action list" where
  "setup_calibrate calibrated =
     (if \<not> calibrated
      then [SerialPrintln ''Tuning out of range, check your wiring, your sensor and make sure physics laws have not changed!'']
      else [])"

section \<open>The AS3935 library\<close>

text \<open>
  The sketch includes \<^verbatim>\<open>AS3935.h\<close> and calls the library's \<^verbatim>\<open>reset\<close>,
  \<^verbatim>\<open>calibrate\<close>, \<^verbatim>\<open>setIndoors\<close>, \<^verbatim>\<open>enableDisturbers\<close> and its getters. Neither
  \<^verbatim>\<open>AS3935.h\<close> nor \<^verbatim>\<open>AS3935.cpp\<close> is among the sources at hand, so this section
  follows the specification (sections 3, 4.1 to 4.3 and 7).
\<close>

text \<open>The error kinds of section 7 of the specification.\<close>

datatype error = TransportFailure | RegisterDecodeError | CalibrationOutOfTolerance

subsection \<open>Register transport\<close>

text \<open>The registers of the device: one byte at each address.\<close>

type_synonym registers = "nat \<Rightarrow> 8 word"

text \<open>
  Modelled from the spec: \<open>read_register\<close> of the library's register transport (the file
  \<^verbatim>\<open>AS3935.cpp\<close> is missing). One framed transaction that returns the data byte of the
  addressed register.
\<close>

definition read_register :: "nat \<Rightarrow> registers \<Rightarrow> 8 word" where
  "read_register addr regs = regs addr"

text \<open>
  Modelled from the spec: \<open>write_register\<close> of the library's register transport (the file
  \<^verbatim>\<open>AS3935.cpp\<close> is missing). Its one effect is the new content of the addressed
  register.
\<close>

definition write_register :: "nat \<Rightarrow> 8 word \<Rightarrow> registers \<Rightarrow> registers" where
  "write_register addr b regs = regs(addr := b)"

subsection \<open>Configuration registers\<close>

text \<open>
  The field descriptor of the specification: a register, a bit offset and a bit width,
  describing a value packed into a shared register byte.
\<close>

record field_descriptor =
  reg :: nat
  offset :: nat
  width :: nat

text \<open>
  Modelled from the spec: the mask of a field, used by the mask-and-set of the setters and
  the mask-and-shift of the getters (the file \<^verbatim>\<open>AS3935.cpp\<close> is missing).
\<close>

definition field_mask :: "field_descriptor \<Rightarrow> 8 word" where
  "field_mask f = push_bit (offset f) (mask (width f))"

text \<open>
  Modelled from the spec: a configuration setter (the file \<^verbatim>\<open>AS3935.cpp\<close> is missing).
  It reads the register, masks and sets the bits of the field, and writes the register.
\<close>

definition set_field :: "field_descriptor \<Rightarrow> 8 word \<Rightarrow> registers \<Rightarrow> registers" where
  "set_field f v regs =
     (let old = read_register (reg f) regs;
          new = (old AND NOT (field_mask f)) OR (push_bit (offset f) v AND field_mask f)
      in write_register (reg f) new regs)"

text \<open>
  Modelled from the spec: the extraction of a configuration getter (the file
  \<^verbatim>\<open>AS3935.cpp\<close> is missing). It reads the register, masks the field and shifts it down.
\<close>

definition field_value :: "field_descriptor \<Rightarrow> registers \<Rightarrow> 8 word" where
  "field_value f regs = drop_bit (offset f) (read_register (reg f) regs AND field_mask f)"

text \<open>
  Modelled from the spec: a configuration getter (the file \<^verbatim>\<open>AS3935.cpp\<close> is missing).
  The extracted value is returned when it lies within the documented enumeration
  \<open>0..limit\<close> of the field; a value outside it is reported as a decode error.
\<close>

definition get_field :: "field_descriptor \<Rightarrow> 8 word \<Rightarrow> registers \<Rightarrow> error + 8 word" where
  "get_field f limit regs =
     (let v = field_value f regs in if v \<le> limit then Inr v else Inl RegisterDecodeError)"

text \<open>
  The specification names the settings but not where they lie: the register map is
  declared in the missing \<^verbatim>\<open>AS3935.h\<close>. The positions of the five fields, and the
  codes of the two enumerated settings, are a parameter.
\<close>

datatype mode = Indoor | Outdoor

datatype disturbers = Enabled | Disabled

record register_map =
  mode_field :: field_descriptor
  mode_code :: "mode \<Rightarrow> 8 word"
  disturber_field :: field_descriptor
  disturber_code :: "disturbers \<Rightarrow> 8 word"
  noise_floor_field :: field_descriptor
  watchdog_threshold_field :: field_descriptor
  spike_rejection_field :: field_descriptor

text \<open>
  Modelled from the spec: \<open>set_mode(Indoor|Outdoor)\<close> (the file \<^verbatim>\<open>AS3935.cpp\<close> is
  missing).
\<close>

definition set_mode :: "register_map \<Rightarrow> mode \<Rightarrow> registers \<Rightarrow> registers" where
  "set_mode m v regs = set_field (mode_field m) (mode_code m v) regs"

text \<open>
  Modelled from the spec: \<open>set_disturbers(Enabled|Disabled)\<close> (the file \<^verbatim>\<open>AS3935.cpp\<close>
  is missing).
\<close>

definition set_disturbers :: "register_map \<Rightarrow> disturbers \<Rightarrow> registers \<Rightarrow> registers" where
  "set_disturbers m v regs = set_field (disturber_field m) (disturber_code m v) regs"

text \<open>
  Modelled from the spec: \<^verbatim>\<open>AS3935.setIndoors()\<close>, called at line 79 of the sketch and
  defined in the missing \<^verbatim>\<open>AS3935.cpp\<close>; it is \<open>set_mode\<close> with \<open>Indoor\<close>.
\<close>

definition setIndoors :: "register_map \<Rightarrow> registers \<Rightarrow> registers" where
  "setIndoors m regs = set_mode m Indoor regs"

text \<open>
  Modelled from the spec: \<^verbatim>\<open>AS3935.enableDisturbers()\<close>, called at line 81 of the sketch
  and defined in the missing \<^verbatim>\<open>AS3935.cpp\<close>; it is \<open>set_disturbers\<close> with \<open>Enabled\<close>.
\<close>

definition enableDisturbers :: "register_map \<Rightarrow> registers \<Rightarrow> registers" where
  "enableDisturbers m regs = set_disturbers m Enabled regs"

text \<open>
  Modelled from the spec: \<open>get_noise_floor() -> 0..7\<close> (\<^verbatim>\<open>AS3935.getNoiseFloor()\<close> at
  line 129 of the sketch, defined in the missing \<^verbatim>\<open>AS3935.cpp\<close>).
\<close>

definition get_noise_floor :: "register_map \<Rightarrow> registers \<Rightarrow> error + 8 word" where
  "get_noise_floor m regs = get_field (noise_floor_field m) 7 regs"

text \<open>
  Modelled from the spec: \<open>get_spike_rejection() -> 0..11\<close>
  (\<^verbatim>\<open>AS3935.getSpikeRejection()\<close> at line 130 of the sketch, defined in the missing
  \<^verbatim>\<open>AS3935.cpp\<close>).
\<close>

definition get_spike_rejection :: "register_map \<Rightarrow> registers \<Rightarrow> error + 8 word" where
  "get_spike_rejection m regs = get_field (spike_rejection_field m) 11 regs"

text \<open>
  Modelled from the spec: \<open>get_watchdog_threshold() -> 0..10\<close>
  (\<^verbatim>\<open>AS3935.getWatchdogThreshold()\<close> at line 131 of the sketch, defined in the missing
  \<^verbatim>\<open>AS3935.cpp\<close>).
\<close>

definition get_watchdog_threshold :: "register_map \<Rightarrow> registers \<Rightarrow> error + 8 word" where
  "get_watchdog_threshold m regs = get_field (watchdog_threshold_field m) 10 regs"

text \<open>
  A register map for the examples: the positions and codes that the data sheet of the
  AS3935 gives to the five settings.
\<close>

definition data_sheet_map :: register_map where
  "data_sheet_map =
     \<lparr>mode_field = \<lparr>reg = 0, offset = 1, width = 5\<rparr>,
      mode_code = (\<lambda>v. case v of Indoor \<Rightarrow> 18 | Outdoor \<Rightarrow> 14),
      disturber_field = \<lparr>reg = 3, offset = 5, width = 1\<rparr>,
      disturber_code = (\<lambda>v. case v of Enabled \<Rightarrow> 0 | Disabled \<Rightarrow> 1),
      noise_floor_field = \<lparr>reg = 1, offset = 4, width = 3\<rparr>,
      watchdog_threshold_field = \<lparr>reg = 1, offset = 0, width = 4\<rparr>,
      spike_rejection_field = \<lparr>reg = 2, offset = 0, width = 4\<rparr>\<rparr>"

subsection \<open>Calibration\<close>

text \<open>
  Modelled from the spec: the sweep of \<open>calibrate()\<close> (\<^verbatim>\<open>AS3935::calibrate\<close>, defined
  in the missing \<^verbatim>\<open>AS3935.cpp\<close>). The trim candidates are visited in their order; for
  each, the deviation of the measured frequency from the target is recorded, and the
  candidate with the least deviation so far is kept (the earlier one on a tie). The
  measurement is the parameter \<open>deviation\<close>, a known deviation curve as in section 8 of
  the specification; the register writes of the sweep are not part of the model.
\<close>

fun sweep :: "(nat \<Rightarrow> int) \<Rightarrow> nat list \<Rightarrow> (nat \<times> int) option \<Rightarrow> (nat \<times> int) option" where
  "sweep deviation [] best = best"
| "sweep deviation (c # cs) best =
     sweep deviation cs
       (case best of
          None \<Rightarrow> Some (c, deviation c)
        | Some (b, d) \<Rightarrow> if deviation c < d then Some (c, deviation c) else Some (b, d))"

text \<open>
  The calibration result of the specification: the verdict, and the trim value selected
  with its deviation (none when there was no candidate).
\<close>

record calibration_result =
  within_tolerance :: bool
  selected :: "(nat \<times> int) option"

text \<open>
  Modelled from the spec: \<open>calibrate()\<close> (\<^verbatim>\<open>AS3935::calibrate\<close>, defined in the
  missing \<^verbatim>\<open>AS3935.cpp\<close>). It sweeps the candidates, selects the one with minimal
  deviation, and the verdict is whether that deviation lies within the tolerance. The
  verdict \<open>False\<close> is the failure CalibrationOutOfTolerance; it is the \<^verbatim>\<open>false\<close> that
  the sketch tests at line 72.
\<close>

definition calibrate :: "(nat \<Rightarrow> int) \<Rightarrow> int \<Rightarrow> int \<Rightarrow> nat list \<Rightarrow> calibration_result" where
  "calibrate frequency target tolerance trims =
     (let best = sweep (\<lambda>c. \<bar>frequency c - target\<bar>) trims None
      in \<lparr>within_tolerance = (case best of None \<Rightarrow> False | Some (c, d) \<Rightarrow> d \<le> tolerance),
          selected = best\<rparr>)"

section \<open>Properties of the sketch\<close>

subsection \<open>The bit tests\<close>

lemma and_1_bit: "(x::int) AND 1 \<noteq> 0 \<longleftrightarrow> bit x 0"
  using and_exp_eq_0_iff_not_bit [of x 0] by simp

lemma and_4_bit: "(x::int) AND 4 \<noteq> 0 \<longleftrightarrow> bit x 2"
  using and_exp_eq_0_iff_not_bit [of x 2] by simp

lemma and_8_bit: "(x::int) AND 8 \<noteq> 0 \<longleftrightarrow> bit x 3"
  using and_exp_eq_0_iff_not_bit [of x 3] by simp

subsection \<open>The calls of one pass\<close>

lemma pass_steps_idle: "AS3935IrqTriggered s = 0 \<Longrightarrow> pass_steps dev s = []"
  by (simp add: pass_steps_def loop_def)

lemma pass_steps_pending:
  "AS3935IrqTriggered s \<noteq> 0 \<Longrightarrow>
   pass_steps dev s =
     [WriteFlag 0, InterruptSource]
     @ (if bit (interruptSource dev) 0
        then [SerialPrintln ''Noise level too high, try adjusting noise floor''] else [])
     @ (if bit (interruptSource dev) 2 then [SerialPrintln ''Disturber detected''] else [])
     @ (if bit (interruptSource dev) 3
        then [LightningDistanceKm]
          @ (if lightningDistanceKm dev = 1
             then [SerialPrintln ''Storm overhead, watch out!''] else [])
          @ (if lightningDistanceKm dev = 63
             then [SerialPrintln ''Out of range lightning detected.''] else [])
          @ (if lightningDistanceKm dev < 63 \<and> lightningDistanceKm dev > 1
             then [SerialPrint ''Lightning detected '',
                   SerialPrintDec (lightningDistanceKm dev),
                   SerialPrintln '' kilometers away.''] else [])
        else [])"
  by (simp add: pass_steps_def loop_def Let_def and_1_bit and_4_bit and_8_bit)

lemma loop_flag: "AS3935IrqTriggered (loop dev s) = 0"
  by (simp add: loop_def Let_def)

subsection \<open>Classification of the interrupt source\<close>

text \<open>
  Claim C1, as the sketch implements it. A pass that finds the flag set reads the
  interrupt-source register once and tests bits 0, 2 and 3 of the value each on its own,
  whatever the other bits and whatever the distance: bit 0 gives the message of
  NoiseFloorTooHigh, bit 2 the message of DisturberDetected, and bit 3 makes the pass read
  the distance register. Only the lightning event depends on the distance read: between 1
  and 63 the pass gives the message of Lightning with that distance, which is never
  empty, and outside that range it gives none. Nothing else is called.
\<close>

theorem loop_classifies_each_bit:
  assumes "AS3935IrqTriggered s \<noteq> 0"
  shows "pass_steps dev s =
     [WriteFlag 0, InterruptSource]
     @ (if bit (interruptSource dev) 0 then message NoiseFloorTooHigh else [])
     @ (if bit (interruptSource dev) 2 then message DisturberDetected else [])
     @ (if bit (interruptSource dev) 3
        then LightningDistanceKm
          # (if 1 \<le> lightningDistanceKm dev \<and> lightningDistanceKm dev \<le> 63
             then message (Lightning (lightningDistanceKm dev)) else [])
        else [])
   \<and> (message (Lightning (lightningDistanceKm dev)) = [])
       = (lightningDistanceKm dev < 1 \<or> 63 < lightningDistanceKm dev)"
  using assms by (auto simp add: pass_steps_pending)

theorem loop_classifies_each_bit_witness:
  "AS3935IrqTriggered \<lparr>AS3935IrqTriggered = 1, trace = []\<rparr> \<noteq> 0
   \<and> pass_steps \<lparr>interruptSource = 13, lightningDistanceKm = 30\<rparr>
        \<lparr>AS3935IrqTriggered = 1, trace = []\<rparr>
      = [WriteFlag 0, InterruptSource,
         SerialPrintln ''Noise level too high, try adjusting noise floor'',
         SerialPrintln ''Disturber detected'',
         LightningDistanceKm,
         SerialPrint ''Lightning detected '', SerialPrintDec 30,
         SerialPrintln '' kilometers away.'']
   \<and> pass_steps \<lparr>interruptSource = 13, lightningDistanceKm = 0\<rparr>
        \<lparr>AS3935IrqTriggered = 1, trace = []\<rparr>
      = [WriteFlag 0, InterruptSource,
         SerialPrintln ''Noise level too high, try adjusting noise floor'',
         SerialPrintln ''Disturber detected'',
         LightningDistanceKm]"
proof -
  let ?s = "\<lparr>AS3935IrqTriggered = 1, trace = []\<rparr>"
  have h0: "AS3935IrqTriggered ?s \<noteq> 0" by simp
  have near: "pass_steps \<lparr>interruptSource = 13, lightningDistanceKm = 30\<rparr> ?s
      = [WriteFlag 0, InterruptSource,
         SerialPrintln ''Noise level too high, try adjusting noise floor'',
         SerialPrintln ''Disturber detected'',
         LightningDistanceKm,
         SerialPrint ''Lightning detected '', SerialPrintDec 30,
         SerialPrintln '' kilometers away.'']"
    using loop_classifies_each_bit
      [OF h0, of "\<lparr>interruptSource = 13, lightningDistanceKm = 30\<rparr>"]
    by simp
  have none: "pass_steps \<lparr>interruptSource = 13, lightningDistanceKm = 0\<rparr> ?s
      = [WriteFlag 0, InterruptSource,
         SerialPrintln ''Noise level too high, try adjusting noise floor'',
         SerialPrintln ''Disturber detected'',
         LightningDistanceKm]"
    using loop_classifies_each_bit
      [OF h0, of "\<lparr>interruptSource = 13, lightningDistanceKm = 0\<rparr>"]
    by simp
  from h0 near none show ?thesis by blast
qed

text \<open>
  Claim C1 as it is written does not hold for every distance: with only bit 3 set and a
  distance register that reads 0, the pass reads the distance and then makes no serial call
  at all, so no event is surfaced.
\<close>

theorem loop_lightning_bit_without_event:
  "bit (interruptSource \<lparr>interruptSource = 8, lightningDistanceKm = 0\<rparr>) 3
   \<and> filter is_serial (pass_steps \<lparr>interruptSource = 8, lightningDistanceKm = 0\<rparr>
        \<lparr>AS3935IrqTriggered = 1, trace = []\<rparr>) = []"
  by (simp add: pass_steps_pending)

subsection \<open>Order of the flag write and the register read\<close>

text \<open>
  Claim C2, as the sketch implements it. In a pass that finds the flag set, the flag is
  cleared first: the write of 0 is the only call before the read of the interrupt-source
  register, the read is the call that follows it, and it is the only flag write of the
  pass.
\<close>

theorem loop_clears_flag_before_read:
  assumes "AS3935IrqTriggered s \<noteq> 0"
  shows "before_source_read (pass_steps dev s) = [WriteFlag 0]
       \<and> take 2 (pass_steps dev s) = [WriteFlag 0, InterruptSource]
       \<and> filter is_flag_write (pass_steps dev s) = [WriteFlag 0]"
  using assms by (simp add: pass_steps_pending before_source_read_def)

theorem loop_clears_flag_before_read_witness:
  "AS3935IrqTriggered \<lparr>AS3935IrqTriggered = 1, trace = []\<rparr> \<noteq> 0
   \<and> before_source_read (pass_steps \<lparr>interruptSource = 1, lightningDistanceKm = 63\<rparr>
        \<lparr>AS3935IrqTriggered = 1, trace = []\<rparr>) = [WriteFlag 0]
   \<and> take 2 (pass_steps \<lparr>interruptSource = 1, lightningDistanceKm = 63\<rparr>
        \<lparr>AS3935IrqTriggered = 1, trace = []\<rparr>) = [WriteFlag 0, InterruptSource]
   \<and> filter is_flag_write (pass_steps \<lparr>interruptSource = 1, lightningDistanceKm = 63\<rparr>
        \<lparr>AS3935IrqTriggered = 1, trace = []\<rparr>) = [WriteFlag 0]"
proof -
  have h0: "AS3935IrqTriggered \<lparr>AS3935IrqTriggered = 1, trace = []\<rparr> \<noteq> 0" by simp
  from loop_clears_flag_before_read [OF h0] h0 show ?thesis by blast
qed

text \<open>
  Claim C2 as it is written (the flag write never precedes the register read) fails: in
  the pass below the write of the flag is among the calls made before the read.
\<close>

theorem loop_flag_write_precedes_read:
  "WriteFlag 0 \<in> set (before_source_read
     (pass_steps \<lparr>interruptSource = 4, lightningDistanceKm = 0\<rparr>
        \<lparr>AS3935IrqTriggered = 1, trace = []\<rparr>))"
  by (simp add: pass_steps_pending before_source_read_def)

subsection \<open>Several bits at once\<close>

text \<open>
  Claim C3, as the sketch implements it. In every pass that finds the flag set, whatever
  the interrupt source and whatever the distance: the noise message is printed exactly
  when bit 0 is set and the disturber message exactly when bit 2 is set (so both are
  printed when both bits are set), and the flag is written exactly once, with 0. The
  number of messages is one for bit 0 if set, one for bit 2 if set, and one for bit 3 if
  set and the distance read lies between 1 and 63: one message per set bit whenever that
  proviso on the distance is met.
\<close>

theorem loop_one_message_per_bit:
  assumes "AS3935IrqTriggered s \<noteq> 0"
  shows "messages (pass_steps dev s) =
           of_bool (bit (interruptSource dev) 0) + of_bool (bit (interruptSource dev) 2)
           + of_bool (bit (interruptSource dev) 3
               \<and> 1 \<le> lightningDistanceKm dev \<and> lightningDistanceKm dev \<le> 63)
       \<and> (SerialPrintln ''Noise level too high, try adjusting noise floor''
            \<in> set (pass_steps dev s)) = bit (interruptSource dev) 0
       \<and> (SerialPrintln ''Disturber detected'' \<in> set (pass_steps dev s))
            = bit (interruptSource dev) 2
       \<and> filter is_flag_write (pass_steps dev s) = [WriteFlag 0]"
  using assms by (auto simp add: pass_steps_pending messages_def)

theorem loop_one_message_per_bit_witness:
  "AS3935IrqTriggered \<lparr>AS3935IrqTriggered = 1, trace = []\<rparr> \<noteq> 0
   \<and> messages (pass_steps \<lparr>interruptSource = 13, lightningDistanceKm = 63\<rparr>
        \<lparr>AS3935IrqTriggered = 1, trace = []\<rparr>) = 3
   \<and> messages (pass_steps \<lparr>interruptSource = 5, lightningDistanceKm = 0\<rparr>
        \<lparr>AS3935IrqTriggered = 1, trace = []\<rparr>) = 2
   \<and> SerialPrintln ''Noise level too high, try adjusting noise floor''
        \<in> set (pass_steps \<lparr>interruptSource = 13, lightningDistanceKm = 0\<rparr>
             \<lparr>AS3935IrqTriggered = 1, trace = []\<rparr>)
   \<and> SerialPrintln ''Disturber detected''
        \<in> set (pass_steps \<lparr>interruptSource = 13, lightningDistanceKm = 0\<rparr>
             \<lparr>AS3935IrqTriggered = 1, trace = []\<rparr>)
   \<and> filter is_flag_write (pass_steps \<lparr>interruptSource = 13, lightningDistanceKm = 0\<rparr>
        \<lparr>AS3935IrqTriggered = 1, trace = []\<rparr>) = [WriteFlag 0]"
proof -
  let ?s = "\<lparr>AS3935IrqTriggered = 1, trace = []\<rparr>"
  have h0: "AS3935IrqTriggered ?s \<noteq> 0" by simp
  have three: "messages (pass_steps \<lparr>interruptSource = 13, lightningDistanceKm = 63\<rparr> ?s) = 3"
    using loop_one_message_per_bit
      [OF h0, of "\<lparr>interruptSource = 13, lightningDistanceKm = 63\<rparr>"]
    by simp
  have two: "messages (pass_steps \<lparr>interruptSource = 5, lightningDistanceKm = 0\<rparr> ?s) = 2"
    using loop_one_message_per_bit
      [OF h0, of "\<lparr>interruptSource = 5, lightningDistanceKm = 0\<rparr>"]
    by simp
  have both: "SerialPrintln ''Noise level too high, try adjusting noise floor''
        \<in> set (pass_steps \<lparr>interruptSource = 13, lightningDistanceKm = 0\<rparr> ?s)
      \<and> SerialPrintln ''Disturber detected''
        \<in> set (pass_steps \<lparr>interruptSource = 13, lightningDistanceKm = 0\<rparr> ?s)
      \<and> filter is_flag_write (pass_steps \<lparr>interruptSource = 13, lightningDistanceKm = 0\<rparr> ?s)
        = [WriteFlag 0]"
    using loop_one_message_per_bit
      [OF h0, of "\<lparr>interruptSource = 13, lightningDistanceKm = 0\<rparr>"]
    by simp
  from h0 three two both show ?thesis by blast
qed

text \<open>
  Claim C3 as it is written fails when bit 3 is one of the bits and the distance register
  reads 0: bits 0 and 3 are both set below, and the pass prints a single message.
\<close>

theorem loop_two_bits_one_message:
  "bit (interruptSource \<lparr>interruptSource = 9, lightningDistanceKm = 0\<rparr>) 0
   \<and> bit (interruptSource \<lparr>interruptSource = 9, lightningDistanceKm = 0\<rparr>) 3
   \<and> messages (pass_steps \<lparr>interruptSource = 9, lightningDistanceKm = 0\<rparr>
        \<lparr>AS3935IrqTriggered = 1, trace = []\<rparr>) = 1"
  by (simp add: pass_steps_pending messages_def)

subsection \<open>The distance and its sentinels\<close>

text \<open>
  Claim C4. In a pass with bit 3 of the interrupt source set and a distance between 1 and
  63, what follows the read of the distance register is exactly: the overhead-storm
  message for distance 1, the out-of-range message for distance 63, and for every distance
  strictly between the message that prints the distance itself as kilometres.
\<close>

theorem loop_distance_sentinels:
  assumes "AS3935IrqTriggered s \<noteq> 0"
    and "bit (interruptSource dev) 3"
    and "1 \<le> lightningDistanceKm dev" and "lightningDistanceKm dev \<le> 63"
  shows "after_distance_read (pass_steps dev s) =
     (if lightningDistanceKm dev = 1 then [SerialPrintln ''Storm overhead, watch out!'']
      else if lightningDistanceKm dev = 63
        then [SerialPrintln ''Out of range lightning detected.'']
      else [SerialPrint ''Lightning detected '', SerialPrintDec (lightningDistanceKm dev),
            SerialPrintln '' kilometers away.''])"
  using assms by (auto simp add: pass_steps_pending after_distance_read_def)

theorem loop_distance_sentinels_witness:
  "after_distance_read (pass_steps \<lparr>interruptSource = 8, lightningDistanceKm = 1\<rparr>
        \<lparr>AS3935IrqTriggered = 1, trace = []\<rparr>)
     = [SerialPrintln ''Storm overhead, watch out!'']
   \<and> after_distance_read (pass_steps \<lparr>interruptSource = 8, lightningDistanceKm = 63\<rparr>
        \<lparr>AS3935IrqTriggered = 1, trace = []\<rparr>)
     = [SerialPrintln ''Out of range lightning detected.'']
   \<and> after_distance_read (pass_steps \<lparr>interruptSource = 8, lightningDistanceKm = 30\<rparr>
        \<lparr>AS3935IrqTriggered = 1, trace = []\<rparr>)
     = [SerialPrint ''Lightning detected '', SerialPrintDec 30,
        SerialPrintln '' kilometers away.'']"
proof -
  let ?s = "\<lparr>AS3935IrqTriggered = 1, trace = []\<rparr>"
  have h0: "AS3935IrqTriggered ?s \<noteq> 0" by simp
  have b: "bit (interruptSource \<lparr>interruptSource = 8, lightningDistanceKm = d\<rparr>) 3" for d
    by simp
  have near: "after_distance_read (pass_steps \<lparr>interruptSource = 8, lightningDistanceKm = 1\<rparr> ?s)
      = [SerialPrintln ''Storm overhead, watch out!'']"
    using loop_distance_sentinels [OF h0 b [of 1]] by simp
  have far: "after_distance_read (pass_steps \<lparr>interruptSource = 8, lightningDistanceKm = 63\<rparr> ?s)
      = [SerialPrintln ''Out of range lightning detected.'']"
    using loop_distance_sentinels [OF h0 b [of 63]] by simp
  have mid: "after_distance_read (pass_steps \<lparr>interruptSource = 8, lightningDistanceKm = 30\<rparr> ?s)
      = [SerialPrint ''Lightning detected '', SerialPrintDec 30,
         SerialPrintln '' kilometers away.'']"
    using loop_distance_sentinels [OF h0 b [of 30]] by simp
  from near far mid show ?thesis by blast
qed

subsection \<open>No matching bit\<close>

text \<open>
  Claim C10. When bits 0, 2 and 3 of the interrupt source are all clear, a pass that finds
  the flag set makes exactly two calls, the write of 0 to the flag and the read of the
  interrupt-source register: it prints nothing, it does not read the distance register,
  and it leaves the flag cleared.
\<close>

theorem loop_bits_clear_no_event:
  assumes "AS3935IrqTriggered s \<noteq> 0"
    and "\<not> bit (interruptSource dev) 0"
    and "\<not> bit (interruptSource dev) 2"
    and "\<not> bit (interruptSource dev) 3"
  shows "pass_steps dev s = [WriteFlag 0, InterruptSource]
       \<and> AS3935IrqTriggered (loop dev s) = 0"
  using assms by (simp add: pass_steps_pending loop_flag)

theorem loop_bits_clear_no_event_witness:
  "AS3935IrqTriggered \<lparr>AS3935IrqTriggered = 1, trace = []\<rparr> \<noteq> 0
   \<and> \<not> bit (interruptSource \<lparr>interruptSource = 2, lightningDistanceKm = 30\<rparr>) 0
   \<and> \<not> bit (interruptSource \<lparr>interruptSource = 2, lightningDistanceKm = 30\<rparr>) 2
   \<and> \<not> bit (interruptSource \<lparr>interruptSource = 2, lightningDistanceKm = 30\<rparr>) 3
   \<and> pass_steps \<lparr>interruptSource = 2, lightningDistanceKm = 30\<rparr>
        \<lparr>AS3935IrqTriggered = 1, trace = []\<rparr>
       = [WriteFlag 0, InterruptSource]
   \<and> AS3935IrqTriggered (loop \<lparr>interruptSource = 2, lightningDistanceKm = 30\<rparr>
        \<lparr>AS3935IrqTriggered = 1, trace = []\<rparr>) = 0"
proof -
  let ?dev = "\<lparr>interruptSource = 2, lightningDistanceKm = 30\<rparr>"
  let ?s = "\<lparr>AS3935IrqTriggered = 1, trace = []\<rparr>"
  have h0: "AS3935IrqTriggered ?s \<noteq> 0" by simp
  have h1: "\<not> bit (interruptSource ?dev) 0" by simp
  have h2: "\<not> bit (interruptSource ?dev) 2" by simp
  have h3: "\<not> bit (interruptSource ?dev) 3" by simp
  from loop_bits_clear_no_event [OF h0 h1 h2 h3] h0 h1 h2 h3 show ?thesis by blast
qed

subsection \<open>The interrupt handler\<close>

text \<open>
  Claim C9. The handler sets the flag to 1 and does nothing else: the write of the flag is
  the one call it makes, so it makes no call into the AS3935 library (no register
  transaction) and no serial call.
\<close>

theorem AS3935Irq_only_sets_flag:
  "AS3935IrqTriggered (AS3935Irq s) = 1
   \<and> handler_steps s = [WriteFlag 1]
   \<and> filter is_transport (handler_steps s) = []
   \<and> filter is_serial (handler_steps s) = []"
  by (simp add: AS3935Irq_def handler_steps_def)

section \<open>Properties of the library, as the specification describes it\<close>

subsection \<open>Fields of a register byte\<close>

lemma bit_field_mask:
  "bit (field_mask f) n \<longleftrightarrow> n < 8 \<and> offset f \<le> n \<and> n < offset f + width f"
  by (auto simp add: field_mask_def bit_simps)

lemma read_set_field:
  "read_register (reg f) (set_field f v regs) =
     (read_register (reg f) regs AND NOT (field_mask f))
       OR (push_bit (offset f) v AND field_mask f)"
  by (simp add: set_field_def read_register_def write_register_def Let_def)

lemma set_field_other_register:
  "r \<noteq> reg f \<Longrightarrow> read_register r (set_field f v regs) = read_register r regs"
  by (simp add: set_field_def read_register_def write_register_def Let_def)

lemma set_field_outside:
  assumes "n < offset f \<or> offset f + width f \<le> n"
  shows "bit (read_register (reg f) (set_field f v regs)) n
       = bit (read_register (reg f) regs) n"
  using assms by (auto simp add: read_set_field bit_simps bit_field_mask dest: bit_imp_le_length)

lemma field_value_set_field:
  assumes "offset f + width f \<le> 8"
  shows "field_value f (set_field f v regs) = take_bit (width f) v"
proof (rule bit_word_eqI)
  fix n assume "n < LENGTH(8)"
  then show "bit (field_value f (set_field f v regs)) n = bit (take_bit (width f) v) n"
    using assms
    by (auto simp add: field_value_def read_set_field bit_simps bit_field_mask
        dest: bit_imp_le_length)
qed

lemma take_bit_in_range:
  fixes v :: "8 word"
  assumes "v \<le> limit" and "unat limit < 2 ^ w"
  shows "take_bit w v = v"
proof -
  have "unat v < 2 ^ w"
    using assms by (simp add: word_le_nat_alt)
  then have "unat (take_bit w v) = unat v"
    by (simp add: unsigned_take_bit_eq take_bit_nat_eq_self)
  then show ?thesis
    by (simp add: word_unat_eq_iff)
qed

text \<open>
  Claim C6. For a field that lies within its register byte, and a value \<open>v\<close> of the
  field's valid range \<open>0..limit\<close> (a range that the width of the field can hold), setting
  the field to \<open>v\<close> and then getting it returns \<open>v\<close>. Mode, disturber enable, noise
  floor, watchdog threshold and spike rejection are such fields, whatever the register
  map.
\<close>

theorem set_then_get:
  assumes "offset f + width f \<le> 8" and "v \<le> limit" and "unat limit < 2 ^ width f"
  shows "get_field f limit (set_field f v regs) = Inr v"
  using assms by (simp add: get_field_def field_value_set_field take_bit_in_range)

theorem set_then_get_witness:
  "offset (spike_rejection_field data_sheet_map)
     + width (spike_rejection_field data_sheet_map) \<le> 8
   \<and> (9 :: 8 word) \<le> 11
   \<and> unat (11 :: 8 word) < 2 ^ width (spike_rejection_field data_sheet_map)
   \<and> get_field (spike_rejection_field data_sheet_map) 11
        (set_field (spike_rejection_field data_sheet_map) 9 (\<lambda>_. 0)) = Inr 9"
proof -
  let ?f = "spike_rejection_field data_sheet_map"
  have h0: "offset ?f + width ?f \<le> 8" by (simp add: data_sheet_map_def)
  have h1: "(9 :: 8 word) \<le> 11" by simp
  have h2: "unat (11 :: 8 word) < 2 ^ width ?f" by (simp add: data_sheet_map_def)
  from set_then_get [OF h0 h1 h2] h0 h1 h2 show ?thesis by blast
qed

text \<open>
  Claim C7. A setter is a read-modify-write of the register byte of its field: whatever
  the registers held before and whatever value is written, every bit of that register
  outside the span of the field (below its offset, or at or above offset plus width) is
  the same after the setter as before. \<open>set_mode\<close>, \<open>set_disturbers\<close>,
  \<open>setIndoors\<close> and \<open>enableDisturbers\<close> are \<open>set_field\<close> at their fields.
\<close>

theorem set_field_frame:
  assumes "n < offset f \<or> offset f + width f \<le> n"
  shows "bit (read_register (reg f) (set_field f v regs)) n
       = bit (read_register (reg f) regs) n"
  using assms by (rule set_field_outside)

theorem set_field_frame_witness:
  "(6 < offset (disturber_field data_sheet_map)
      \<or> offset (disturber_field data_sheet_map) + width (disturber_field data_sheet_map) \<le> 6)
   \<and> bit (read_register (reg (disturber_field data_sheet_map))
        (set_field (disturber_field data_sheet_map) 0 (\<lambda>_. 255))) 6"
proof -
  let ?f = "disturber_field data_sheet_map"
  have h: "6 < offset ?f \<or> offset ?f + width ?f \<le> 6" by (simp add: data_sheet_map_def)
  have b: "bit (read_register (reg ?f) (\<lambda>_. 255)) 6"
    by (simp add: read_register_def)
  from set_field_frame [OF h, of 0 "\<lambda>_. 255"] h b show ?thesis by blast
qed

lemma setIndoors_frame:
  assumes "n < offset (mode_field m) \<or> offset (mode_field m) + width (mode_field m) \<le> n"
  shows "bit (read_register (reg (mode_field m)) (setIndoors m regs)) n
       = bit (read_register (reg (mode_field m)) regs) n"
  using assms by (simp add: setIndoors_def set_mode_def set_field_outside)

lemma enableDisturbers_frame:
  assumes "n < offset (disturber_field m)
         \<or> offset (disturber_field m) + width (disturber_field m) \<le> n"
  shows "bit (read_register (reg (disturber_field m)) (enableDisturbers m regs)) n
       = bit (read_register (reg (disturber_field m)) regs) n"
  using assms by (simp add: enableDisturbers_def set_disturbers_def set_field_outside)

text \<open>
  Claim C8. Each of the three getters returns the extracted field value only when it lies
  within the documented enumeration (noise floor 0..7, spike rejection 0..11, watchdog
  threshold 0..10); for every register content whose extracted value lies outside it, the
  getter returns RegisterDecodeError, neither a clamped value nor the value itself.
\<close>

theorem getters_report_decode_error:
  "get_noise_floor m regs =
     (if field_value (noise_floor_field m) regs \<le> 7
      then Inr (field_value (noise_floor_field m) regs) else Inl RegisterDecodeError)
   \<and> get_spike_rejection m regs =
     (if field_value (spike_rejection_field m) regs \<le> 11
      then Inr (field_value (spike_rejection_field m) regs) else Inl RegisterDecodeError)
   \<and> get_watchdog_threshold m regs =
     (if field_value (watchdog_threshold_field m) regs \<le> 10
      then Inr (field_value (watchdog_threshold_field m) regs) else Inl RegisterDecodeError)"
  by (simp add: get_noise_floor_def get_spike_rejection_def get_watchdog_threshold_def
      get_field_def Let_def)

theorem getters_report_decode_error_witness:
  "get_noise_floor data_sheet_map (\<lambda>_. 255) = Inr 7
   \<and> get_spike_rejection data_sheet_map (\<lambda>_. 255) = Inl RegisterDecodeError
   \<and> get_watchdog_threshold data_sheet_map (\<lambda>_. 255) = Inl RegisterDecodeError"
proof -
  have nf: "field_value (noise_floor_field data_sheet_map) (\<lambda>_. 255) = 7"
    by (simp add: data_sheet_map_def field_value_def field_mask_def read_register_def
        mask_numeral)
  have sr: "field_value (spike_rejection_field data_sheet_map) (\<lambda>_. 255) = 15"
    by (simp add: data_sheet_map_def field_value_def field_mask_def read_register_def
        mask_numeral)
  have wd: "field_value (watchdog_threshold_field data_sheet_map) (\<lambda>_. 255) = 15"
    by (simp add: data_sheet_map_def field_value_def field_mask_def read_register_def
        mask_numeral)
  from getters_report_decode_error [of data_sheet_map "\<lambda>_. 255"] nf sr wd
  show ?thesis by simp
qed

subsection \<open>Calibration\<close>

lemma sweep_Some:
  "sweep dev cs (Some (b, dev b)) = r \<Longrightarrow>
     \<exists>c. r = Some (c, dev c) \<and> c \<in> insert b (set cs)
       \<and> (\<forall>c' \<in> insert b (set cs). dev c \<le> dev c')"
proof (induction cs arbitrary: b)
  case Nil
  then show ?case by auto
next
  case (Cons a cs)
  show ?case
  proof (cases "dev a < dev b")
    case True
    with Cons.prems have "sweep dev cs (Some (a, dev a)) = r" by simp
    from Cons.IH [OF this] True show ?thesis by fastforce
  next
    case False
    with Cons.prems have "sweep dev cs (Some (b, dev b)) = r" by simp
    from Cons.IH [OF this] False show ?thesis by fastforce
  qed
qed

lemma sweep_None:
  "sweep dev cs None = r \<Longrightarrow>
     (case r of None \<Rightarrow> cs = []
      | Some (c, d) \<Rightarrow> c \<in> set cs \<and> d = dev c \<and> (\<forall>c' \<in> set cs. d \<le> dev c'))"
proof (cases cs)
  case Nil
  assume "sweep dev cs None = r"
  with Nil show ?thesis by auto
next
  case (Cons a as)
  assume "sweep dev cs None = r"
  with Cons have "sweep dev as (Some (a, dev a)) = r" by simp
  from sweep_Some [OF this] Cons show ?thesis by auto
qed

text \<open>
  Claim C5. \<open>calibrate\<close> sweeps the trim candidates in order and selects one of them whose
  deviation from the target is minimal among all candidates; its verdict is a failure
  (out of tolerance, the \<^verbatim>\<open>false\<close> on which the sketch prints its warning) if and only
  if every candidate deviates by more than the tolerance.
\<close>

theorem calibrate_selects_minimum:
  "(\<not> within_tolerance (calibrate frequency target tolerance trims))
     = (\<forall>c \<in> set trims. tolerance < \<bar>frequency c - target\<bar>)
   \<and> (setup_calibrate (within_tolerance (calibrate frequency target tolerance trims)) \<noteq> [])
     = (\<forall>c \<in> set trims. tolerance < \<bar>frequency c - target\<bar>)
   \<and> (case selected (calibrate frequency target tolerance trims) of
         None \<Rightarrow> trims = []
       | Some (c, d) \<Rightarrow> c \<in> set trims \<and> d = \<bar>frequency c - target\<bar>
           \<and> (\<forall>c' \<in> set trims. d \<le> \<bar>frequency c' - target\<bar>))"
proof -
  define dev where "dev = (\<lambda>c. \<bar>frequency c - target\<bar>)"
  define r where "r = sweep dev trims None"
  have inv: "case r of None \<Rightarrow> trims = []
      | Some (c, d) \<Rightarrow> c \<in> set trims \<and> d = dev c \<and> (\<forall>c' \<in> set trims. d \<le> dev c')"
    using sweep_None [of dev trims r] by (simp add: r_def)
  have sel: "selected (calibrate frequency target tolerance trims) = r"
    by (simp add: calibrate_def r_def dev_def Let_def)
  have tol: "within_tolerance (calibrate frequency target tolerance trims)
      = (case r of None \<Rightarrow> False | Some (c, d) \<Rightarrow> d \<le> tolerance)"
    by (simp add: calibrate_def r_def dev_def Let_def)
  have verdict: "(\<not> within_tolerance (calibrate frequency target tolerance trims))
     = (\<forall>c \<in> set trims. tolerance < dev c)"
  proof (cases r)
    case None
    with inv tol show ?thesis by simp
  next
    case (Some p)
    obtain c d where p: "p = (c, d)" by (cases p)
    from inv Some p have c: "c \<in> set trims" and d: "d = dev c"
      and least: "\<forall>c' \<in> set trims. d \<le> dev c'" by auto
    from tol Some p have "(\<not> within_tolerance (calibrate frequency target tolerance trims))
      = (tolerance < d)" by auto
    also have "\<dots> = (\<forall>c \<in> set trims. tolerance < dev c)"
      using c d least by force
    finally show ?thesis .
  qed
  have warning: "(setup_calibrate ok \<noteq> []) = (\<not> ok)" for ok
    by (simp add: setup_calibrate_def)
  from verdict inv sel show ?thesis unfolding dev_def warning by simp
qed

theorem calibrate_selects_minimum_witness:
  "within_tolerance (calibrate (\<lambda>c. 470 + 11 * int c) 500 5 [0, 1, 2, 3, 4])
   \<and> \<not> within_tolerance (calibrate (\<lambda>c. 470 + 11 * int c) 500 2 [0, 1, 2, 3, 4])
   \<and> selected (calibrate (\<lambda>c. 470 + 11 * int c) 500 5 [0, 1, 2, 3, 4]) = Some (3, 3)"
proof -
  let ?f = "\<lambda>c. 470 + 11 * int c"
  have a: "within_tolerance (calibrate ?f 500 5 [0, 1, 2, 3, 4])"
    using calibrate_selects_minimum [of ?f 500 5 "[0, 1, 2, 3, 4]"] by simp
  have b: "\<not> within_tolerance (calibrate ?f 500 2 [0, 1, 2, 3, 4])"
    using calibrate_selects_minimum [of ?f 500 2 "[0, 1, 2, 3, 4]"] by simp
  have c: "selected (calibrate ?f 500 5 [0, 1, 2, 3, 4]) = Some (3, 3)"
    by (simp add: calibrate_def)
  from a b c show ?thesis by blast
qed

end
